theory Spec2Isabelle
  imports Main "HOL-Library.Word"
begin

unbundle bit_operations_syntax

section \<open>The USB helper of the SC Controller daemon (src/daemon/usb_helper.c)\<close>

text \<open>
  The file is embedded in the one configuration in which it compiles: with
  \<^verbatim>\<open>USE_HIDAPI\<close> defined (\<^verbatim>\<open>sccd_hidapi_dev_interupt_cb\<close> reads the \<^verbatim>\<open>hid\<close> member of
  the handle without any guard) and therefore with \<^verbatim>\<open>_WIN32\<close> defined (the other branch
  of the HIDAPI code in \<^verbatim>\<open>sccd_usb_dev_open_by_syspath\<close> is an \<^verbatim>\<open>#error\<close>).

  Memory follows the heap-as-functions style: every struct type has a total function from
  addresses to its contents, and a separate table \<open>live\<close> says which addresses are
  allocated. A block that \<^verbatim>\<open>malloc\<close> has just returned therefore holds whatever the state
  held at that address, as in C. Addresses are handed out in increasing order and never
  reused, so a stale pointer stays recognisable. Everything the code asks of its
  surroundings (whether an allocation succeeds, what libusb or hidapi returns) is an
  explicit argument; every call that leaves the file (a user callback, a libusb or
  hidapi request, the daemon's scheduler) is appended to \<open>trace\<close>, and so is every
  append to the queue of deliveries, so that the trace shows in which order a run queued
  and submitted. A user callback is recorded, not run: it is assumed not to touch the
  helper's queue.
\<close>

subsection \<open>Data\<close>

type_synonym u8 = "8 word"
type_synonym u16 = "16 word"
type_synonym i32 = "32 word"
type_synonym addr = nat
type_synonym ptr = "addr option"  \<comment> \<open>\<open>None\<close> is \<^verbatim>\<open>NULL\<close>\<close>

text \<open>Modelled from the spec: \<^verbatim>\<open>enum Subsystem\<close> is declared in daemon.h, which is not
  among the sources; the code names \<^verbatim>\<open>USB\<close> and \<^verbatim>\<open>HIDAPI\<close> and has default arms for
  every other value.\<close>

datatype Subsystem = USB | HIDAPI | OtherSubsystem nat

text \<open>\<^verbatim>\<open>struct USBDevHandle\<close>. The members \<^verbatim>\<open>usb\<close> and \<^verbatim>\<open>hid\<close> share one union slot.\<close>

record USBDevHandle =
  sys :: Subsystem
  usb_hid :: ptr
  idx :: int

record InputInterruptData =
  i_cb :: nat
  i_hndl :: addr
  i_endpoint :: u8
  i_buffer :: ptr
  i_length :: nat
  i_userdata :: ptr

text \<open>The members of \<^verbatim>\<open>struct libusb_transfer\<close> that the helper fills or reads; the
  completion callback is always \<^verbatim>\<open>input_interrupt_cb\<close>.\<close>

record libusb_transfer =
  t_dev_handle :: ptr
  t_endpoint :: u8
  t_buffer :: addr
  t_length :: int
  t_actual_length :: int
  t_user_data :: addr
  t_timeout :: nat

datatype block = Bytes nat | HandleBlock | RequestBlock | TransferBlock

datatype event =
    UserCallback nat addr u8 ptr ptr
      \<comment> \<open>\<^verbatim>\<open>cb(daemon, hndl, endpoint, buffer, userdata)\<close>\<close>
  | SubmitTransfer addr int
      \<comment> \<open>\<^verbatim>\<open>libusb_submit_transfer(t)\<close> and the code it returned\<close>
  | ControlTransfer ptr u8 u8 u16 u16 addr u16 nat
      \<comment> \<open>\<^verbatim>\<open>libusb_control_transfer(usb, request_type, request, value, idx, data, length, timeout)\<close>\<close>
  | HidSendFeatureReport ptr "u8 list"
  | HidGetFeatureReport ptr nat
  | HidReadTimeout ptr ptr nat nat
  | HidOpenPath string
  | LibusbOpen nat
  | SetAutoDetachKernelDriver ptr
  | FreeDeviceList
  | Schedule nat addr
      \<comment> \<open>\<^verbatim>\<open>d->schedule(delay, sccd_hidapi_dev_interupt_cb, idata)\<close>\<close>
  | ListAdd addr
      \<comment> \<open>\<^verbatim>\<open>list_add(scheduled_interupts, item)\<close>\<close>

record world =
  brk :: addr
  live :: "addr \<rightharpoonup> block"
  handles :: "addr \<Rightarrow> USBDevHandle"
  requests :: "addr \<Rightarrow> InputInterruptData"
  bytes :: "addr \<Rightarrow> nat \<Rightarrow> u8"
  transfers :: "addr \<Rightarrow> libusb_transfer"
  scheduled_interupts :: "addr list"
  trace :: "event list"

subsection \<open>The C library and the list utility\<close>

definition malloc :: "bool \<Rightarrow> block \<Rightarrow> world \<Rightarrow> ptr \<times> world" where
  "malloc ok blk s =
     (if ok then (Some (brk s), s\<lparr>brk := Suc (brk s), live := (live s)(brk s \<mapsto> blk)\<rparr>)
      else (None, s))"

definition free :: "ptr \<Rightarrow> world \<Rightarrow> world" where
  "free p s = (case p of None \<Rightarrow> s | Some a \<Rightarrow> s\<lparr>live := (live s)(a := None)\<rparr>)"

definition memcpy :: "addr \<Rightarrow> addr \<Rightarrow> nat \<Rightarrow> world \<Rightarrow> world" where
  "memcpy dst src n s =
     s\<lparr>bytes := (bytes s)(dst := (\<lambda>i. if i < n then bytes s src i else bytes s dst i))\<rparr>"

definition load :: "world \<Rightarrow> addr \<Rightarrow> nat \<Rightarrow> u8 list" where
  "load s a n = map (bytes s a) [0..<n]"

definition store :: "addr \<Rightarrow> u8 list \<Rightarrow> world \<Rightarrow> world" where
  "store a data s =
     s\<lparr>bytes := (bytes s)(a := (\<lambda>i. if i < length data then data ! i else bytes s a i))\<rparr>"

definition emit :: "event \<Rightarrow> world \<Rightarrow> world" where
  "emit e s = s\<lparr>trace := trace s @ [e]\<rparr>"

text \<open>\<^verbatim>\<open>libusb_alloc_transfer(0)\<close> and \<^verbatim>\<open>libusb_free_transfer\<close> (which leaves the
  transfer's buffer alone: the helper never sets \<^verbatim>\<open>LIBUSB_TRANSFER_FREE_BUFFER\<close>).\<close>

definition libusb_alloc_transfer :: "bool \<Rightarrow> world \<Rightarrow> ptr \<times> world" where
  "libusb_alloc_transfer ok s = malloc ok TransferBlock s"

definition libusb_free_transfer :: "addr \<Rightarrow> world \<Rightarrow> world" where
  "libusb_free_transfer t s = free (Some t) s"

definition LIBUSB_ENDPOINT_DIR_MASK :: u8 where "LIBUSB_ENDPOINT_DIR_MASK = 0x80"
definition LIBUSB_ENDPOINT_IN :: u8 where "LIBUSB_ENDPOINT_IN = 0x80"
definition LIBUSB_ENDPOINT_OUT :: u8 where "LIBUSB_ENDPOINT_OUT = 0x00"

text \<open>Modelled from the spec: the growable list of scc/utils/list.h (``the dynamic list
  utility used as a growable queue'') is not among the sources. \<^verbatim>\<open>list_add\<close> appends,
  \<^verbatim>\<open>list_clear\<close> empties, \<^verbatim>\<open>FOREACH_IN\<close> visits the items first to last, and
  \<^verbatim>\<open>list_filter(list, fn, userdata)\<close> calls \<^verbatim>\<open>fn(item, userdata)\<close> on every item, first
  to last, and keeps the items for which it returns true. \<^verbatim>\<open>list_allocate\<close> only reserves
  room and reports whether it could.\<close>

definition list_add :: "addr \<Rightarrow> world \<Rightarrow> world" where
  "list_add a s = emit (ListAdd a) (s\<lparr>scheduled_interupts := scheduled_interupts s @ [a]\<rparr>)"

definition list_clear :: "world \<Rightarrow> world" where
  "list_clear s = s\<lparr>scheduled_interupts := []\<rparr>"

fun filter_items :: "(addr \<Rightarrow> 'u \<Rightarrow> world \<Rightarrow> bool \<times> world) \<Rightarrow> 'u \<Rightarrow> addr list \<Rightarrow> world
    \<Rightarrow> addr list \<times> world" where
  "filter_items fn u [] s = ([], s)"
| "filter_items fn u (x # xs) s =
     (case fn x u s of (keep, s1) \<Rightarrow>
        (case filter_items fn u xs s1 of (ys, s2) \<Rightarrow> (if keep then x # ys else ys, s2)))"

definition list_filter :: "(addr \<Rightarrow> 'u \<Rightarrow> world \<Rightarrow> bool \<times> world) \<Rightarrow> 'u \<Rightarrow> world \<Rightarrow> world" where
  "list_filter fn u s =
     (case filter_items fn u (scheduled_interupts s) s of
        (ys, s1) \<Rightarrow> s1\<lparr>scheduled_interupts := ys\<rparr>)"

subsection \<open>The completion handler of the event-driven backend\<close>

text \<open>What the surroundings decide during one run of \<^verbatim>\<open>input_interrupt_cb\<close>: whether
  \<^verbatim>\<open>list_allocate\<close> and the three calls of \<^verbatim>\<open>malloc\<close> succeed, and what
  \<^verbatim>\<open>libusb_submit_transfer\<close> returns.\<close>

record completion_env =
  list_allocate_ok :: bool
  scheduled_ok :: bool
  buffer_copy_ok :: bool
  resubmit_err :: int
  scheduled2_ok :: bool

definition remove_si_by_device :: "addr \<Rightarrow> addr \<Rightarrow> world \<Rightarrow> bool \<times> world" where
  "remove_si_by_device item h s =
     (if i_hndl (requests s item) = h then (False, free (Some item) s) else (True, s))"

text \<open>The code from the label \<^verbatim>\<open>input_interrupt_cb_error\<close> on.\<close>

definition input_interrupt_cb_error :: "addr \<Rightarrow> world \<Rightarrow> world" where
  "input_interrupt_cb_error t s =
     (let idata = t_user_data (transfers s t);
          s1 = free (i_buffer (requests s idata)) s;
          s2 = free (Some idata) s1
      in libusb_free_transfer t s2)"

text \<open>The code from the label \<^verbatim>\<open>input_interrupt_cb_oom\<close> on, which falls through into
  \<^verbatim>\<open>input_interrupt_cb_error\<close>.\<close>

definition input_interrupt_cb_oom :: "addr \<Rightarrow> ptr \<Rightarrow> ptr \<Rightarrow> world \<Rightarrow> world" where
  "input_interrupt_cb_oom t scheduled buffer_copy s =
     (let tr = transfers s t;
          idata = requests s (t_user_data tr);
          s1 = free buffer_copy (free scheduled s);
          s2 = list_filter remove_si_by_device (i_hndl idata) s1;
          s3 = emit (UserCallback (i_cb idata) (i_hndl idata) (t_endpoint tr) None
                       (i_userdata idata)) s2
      in input_interrupt_cb_error t s3)"

definition input_interrupt_cb :: "completion_env \<Rightarrow> addr \<Rightarrow> world \<Rightarrow> world" where
  "input_interrupt_cb env t s =
     (let tr = transfers s t; idata = t_user_data tr; n = nat (t_actual_length tr) in
      if \<not> list_allocate_ok env then input_interrupt_cb_oom t None None s
      else
        (case malloc (scheduled_ok env) RequestBlock s of (scheduled, s1) \<Rightarrow>
         case malloc (buffer_copy_ok env) (Bytes n) s1 of (buffer_copy, s2) \<Rightarrow>
         (case (scheduled, buffer_copy) of
            (Some sc, Some bc) \<Rightarrow>
              (let s3 = s2\<lparr>requests := (requests s2)(sc := requests s2 idata)\<rparr>;
                   s4 = memcpy bc (t_buffer tr) n s3;
                   s5 = s4\<lparr>requests := (requests s4)(sc := (requests s4 sc)
                          \<lparr>i_buffer := Some bc,
                           i_endpoint := t_endpoint tr AND NOT LIBUSB_ENDPOINT_DIR_MASK\<rparr>)\<rparr>;
                   s6 = list_add sc s5;
                   s7 = emit (SubmitTransfer t (resubmit_err env)) s6
               in if resubmit_err env \<noteq> 0 then
                    (case malloc (scheduled2_ok env) RequestBlock s7 of
                       (None, s8) \<Rightarrow> input_interrupt_cb_oom t None None s8
                     | (Some sc2, s8) \<Rightarrow>
                         (let s9 = s8\<lparr>requests := (requests s8)(sc2 := (requests s8 idata)
                                     \<lparr>i_buffer := None\<rparr>)\<rparr>;
                              s10 = list_add sc2 s9
                          in input_interrupt_cb_error t s10))
                  else s7)
          | _ \<Rightarrow> input_interrupt_cb_oom t scheduled buffer_copy s2)))"

subsection \<open>The per-tick callback\<close>

text \<open>Modelled from the spec: \<^verbatim>\<open>libusb_handle_events_timeout_completed\<close> is libusb's. It
  is given the transfers that complete during the call, in order, each with the bytes
  received and with what the surroundings decide during the handler's run; for each it
  fills the transfer's buffer and \<^verbatim>\<open>actual_length\<close> and calls the completion handler.\<close>

definition complete_transfer :: "addr \<Rightarrow> u8 list \<Rightarrow> world \<Rightarrow> world" where
  "complete_transfer t data s =
     (let tr = transfers s t in
      store (t_buffer tr) data
        (s\<lparr>transfers := (transfers s)(t := tr\<lparr>t_actual_length := int (length data)\<rparr>)\<rparr>))"

fun libusb_handle_events :: "(addr \<times> u8 list \<times> completion_env) list \<Rightarrow> world \<Rightarrow> world" where
  "libusb_handle_events [] s = s"
| "libusb_handle_events ((t, data, env) # cs) s =
     libusb_handle_events cs (input_interrupt_cb env t (complete_transfer t data s))"

text \<open>The body of the \<^verbatim>\<open>FOREACH_IN\<close> loop of \<^verbatim>\<open>sccd_usb_helper_mainloop\<close>.\<close>

definition deliver :: "addr \<Rightarrow> world \<Rightarrow> world" where
  "deliver a s =
     (let idata = requests s a;
          s1 = emit (UserCallback (i_cb idata) (i_hndl idata) (i_endpoint idata)
                       (i_buffer idata) (i_userdata idata)) s;
          s2 = free (i_buffer idata) s1
      in free (Some a) s2)"

definition sccd_usb_helper_mainloop :: "(addr \<times> u8 list \<times> completion_env) list \<Rightarrow> world \<Rightarrow> world" where
  "sccd_usb_helper_mainloop completions s =
     (let s1 = libusb_handle_events completions s in
      if length (scheduled_interupts s1) > 0
      then list_clear (fold deliver (scheduled_interupts s1) s1)
      else s1)"

subsection \<open>Starting a read loop\<close>

text \<open>What the surroundings decide during \<^verbatim>\<open>sccd_usb_dev_interupt_read_loop\<close>: whether
  the allocations succeed and what \<^verbatim>\<open>libusb_submit_transfer\<close> returns.\<close>

record loop_env =
  buffer_ok :: bool
  idata_ok :: bool
  transfer_ok :: bool
  submit_err :: int

text \<open>\<^verbatim>\<open>hid_read_timeout(hid, buffer, length, 0)\<close> is hidapi's. The device is given as the
  results of the successive calls, each a return value and the bytes read; once the list
  is used up the call returns 0 (nothing is waiting). The loop of
  \<^verbatim>\<open>sccd_hidapi_dev_interupt_cb\<close> runs as long as the call returns a positive value.\<close>

fun hid_read_loop :: "addr \<Rightarrow> (int \<times> u8 list) list \<Rightarrow> world \<Rightarrow> world" where
  "hid_read_loop i [] s =
     emit (HidReadTimeout (usb_hid (handles s (i_hndl (requests s i))))
             (i_buffer (requests s i)) (i_length (requests s i)) 0) s"
| "hid_read_loop i ((r, data) # rest) s =
     (let idata = requests s i;
          s1 = emit (HidReadTimeout (usb_hid (handles s (i_hndl idata))) (i_buffer idata)
                       (i_length idata) 0) s
      in if r > 0
         then hid_read_loop i rest
                (emit (UserCallback (i_cb idata) (i_hndl idata) (i_endpoint idata)
                         (i_buffer idata) (i_userdata idata))
                   (case i_buffer idata of None \<Rightarrow> s1
                    | Some b \<Rightarrow> store b (take (nat r) data) s1))
         else s1)"

definition sccd_hidapi_dev_interupt_cb :: "(int \<times> u8 list) list \<Rightarrow> addr \<Rightarrow> world \<Rightarrow> world" where
  "sccd_hidapi_dev_interupt_cb reads idata s = emit (Schedule 1 idata) (hid_read_loop idata reads s)"

definition sccd_hidapi_dev_interupt_read_loop ::
    "loop_env \<Rightarrow> addr \<Rightarrow> u8 \<Rightarrow> int \<Rightarrow> nat \<Rightarrow> ptr \<Rightarrow> world \<Rightarrow> bool \<times> world" where
  "sccd_hidapi_dev_interupt_read_loop env hndl endpoint len cb userdata s =
     (case malloc (idata_ok env) RequestBlock s of (idata, s1) \<Rightarrow>
      case malloc (buffer_ok env) (Bytes (nat len)) s1 of (buffer, s2) \<Rightarrow>
      (case (idata, buffer) of
         (Some i, Some b) \<Rightarrow>
           (let s3 = s2\<lparr>requests := (requests s2)(i := (requests s2 i)
                       \<lparr>i_cb := cb, i_hndl := hndl, i_buffer := Some b,
                        i_userdata := userdata\<rparr>)\<rparr>
            in (True, emit (Schedule 1 i) s3))
       | _ \<Rightarrow> (False, free buffer (free idata s2))))"

definition libusb_fill_interrupt_transfer ::
    "addr \<Rightarrow> ptr \<Rightarrow> u8 \<Rightarrow> addr \<Rightarrow> int \<Rightarrow> addr \<Rightarrow> nat \<Rightarrow> world \<Rightarrow> world" where
  "libusb_fill_interrupt_transfer t dev ep buf len user_data timeout s =
     s\<lparr>transfers := (transfers s)(t := (transfers s t)
          \<lparr>t_dev_handle := dev, t_endpoint := ep, t_buffer := buf, t_length := len,
           t_user_data := user_data, t_timeout := timeout\<rparr>)\<rparr>"

text \<open>The code from the label \<^verbatim>\<open>sccd_usb_dev_interupt_read_loop_fail\<close> on.\<close>

definition read_loop_fail :: "ptr \<Rightarrow> ptr \<Rightarrow> ptr \<Rightarrow> world \<Rightarrow> bool \<times> world" where
  "read_loop_fail idata buffer t s =
     (let s1 = free buffer (free idata s)
      in (False, case t of None \<Rightarrow> s1 | Some tt \<Rightarrow> libusb_free_transfer tt s1))"

definition sccd_usb_dev_interupt_read_loop ::
    "loop_env \<Rightarrow> addr \<Rightarrow> u8 \<Rightarrow> int \<Rightarrow> nat \<Rightarrow> ptr \<Rightarrow> world \<Rightarrow> bool \<times> world" where
  "sccd_usb_dev_interupt_read_loop env hndl endpoint len cb userdata s =
     (if sys (handles s hndl) = HIDAPI
      then sccd_hidapi_dev_interupt_read_loop env hndl endpoint len cb userdata s
      else if sys (handles s hndl) \<noteq> USB then (False, s)
      else
        (case malloc (buffer_ok env) (Bytes (nat len)) s of (buffer, s1) \<Rightarrow>
         case malloc (idata_ok env) RequestBlock s1 of (idata, s2) \<Rightarrow>
         case libusb_alloc_transfer (transfer_ok env) s2 of (t, s3) \<Rightarrow>
         (case (buffer, t, idata) of
            (Some b, Some tt, Some i) \<Rightarrow>
              (let s4 = s3\<lparr>requests := (requests s3)(i := (requests s3 i)
                          \<lparr>i_cb := cb, i_hndl := hndl, i_buffer := Some b,
                           i_userdata := userdata\<rparr>)\<rparr>;
                   s5 = libusb_fill_interrupt_transfer tt (usb_hid (handles s hndl))
                          ((endpoint AND NOT LIBUSB_ENDPOINT_DIR_MASK) OR LIBUSB_ENDPOINT_IN)
                          b len i 0 s4;
                   s6 = emit (SubmitTransfer tt (submit_err env)) s5
               in if submit_err env \<noteq> 0 then read_loop_fail idata buffer t s6
                  else (True, s6))
          | _ \<Rightarrow> read_loop_fail idata buffer t s3)))"

subsection \<open>The feature-report round trip\<close>

text \<open>What the surroundings decide during \<^verbatim>\<open>sccd_usb_dev_hid_request\<close>: whether the
  output buffer can be allocated, what the ``set report'' and the ``get report'' calls
  return, and the bytes the device answers with.\<close>

record request_env =
  out_buffer_ok :: bool
  set_report_err :: int
  get_report_err :: int
  get_report_data :: "u8 list"

definition BUFFER_MAX :: nat where "BUFFER_MAX = 256"

text \<open>The code from the label \<^verbatim>\<open>sccd_usb_dev_hid_request_fail\<close> on.\<close>

definition hid_request_fail :: "bool \<Rightarrow> ptr \<Rightarrow> world \<Rightarrow> ptr \<times> world" where
  "hid_request_fail use_same_buffer out_buffer s =
     (None, if \<not> use_same_buffer then free out_buffer s else s)"

text \<open>The argument \<^verbatim>\<open>_length\<close> is an \<^verbatim>\<open>int32_t\<close> and the local \<^verbatim>\<open>length\<close> an
  \<^verbatim>\<open>uint16_t\<close>: both casts keep the low 16 bits. (For the least \<^verbatim>\<open>int32_t\<close> the
  negation overflows; it is taken to wrap, as compilers for two's complement machines
  do.) \<open>request_length\<close> is the value the code gives \<^verbatim>\<open>length\<close>.\<close>

definition request_length :: "i32 \<Rightarrow> u16" where
  "request_length len32 = (if sint len32 < 0 then ucast (- len32) else ucast len32)"

definition sccd_usb_dev_hid_request ::
    "request_env \<Rightarrow> addr \<Rightarrow> u16 \<Rightarrow> addr \<Rightarrow> i32 \<Rightarrow> world \<Rightarrow> ptr \<times> world" where
  "sccd_usb_dev_hid_request env hndl index data len32 s =
     (let h = handles s hndl;
          use_same_buffer = (sint len32 < 0);
          len = request_length len32
      in
      case (if use_same_buffer then (Some data, s)
            else malloc (out_buffer_ok env) (Bytes (unat len)) s) of
        (None, s1) \<Rightarrow> (None, s1)
      | (Some out_buffer, s1) \<Rightarrow>
          (case sys h of
             USB \<Rightarrow>
               (let s2 = emit (ControlTransfer (usb_hid h)
                                 ((0x21 AND NOT LIBUSB_ENDPOINT_DIR_MASK) OR LIBUSB_ENDPOINT_OUT)
                                 0x09 0x0300 index data len 500) s1
                in if set_report_err env < 0
                   then hid_request_fail use_same_buffer (Some out_buffer) s2
                   else
                     (let s3 = emit (ControlTransfer (usb_hid h)
                                       ((0xa1 AND NOT LIBUSB_ENDPOINT_DIR_MASK) OR LIBUSB_ENDPOINT_IN)
                                       0x01 0x0300 index out_buffer len 500) s2
                      in if get_report_err env < 0
                         then hid_request_fail use_same_buffer (Some out_buffer) s3
                         else (Some out_buffer,
                               store out_buffer (take (unat len) (get_report_data env)) s3)))
           | HIDAPI \<Rightarrow>
               (if unat len > BUFFER_MAX then (None, s1)
                else
                  (let buffer = 0 # load s1 data (unat len) in
                   if idx h \<noteq> uint index then (None, s1)
                   else
                     (let s2 = emit (HidSendFeatureReport (usb_hid h) buffer) s1
                      in if set_report_err env < 0
                         then hid_request_fail use_same_buffer (Some out_buffer) s2
                         else
                           (let s3 = emit (HidGetFeatureReport (usb_hid h) (unat len + 1)) s2
                            in if get_report_err env < 0
                               then hid_request_fail use_same_buffer (Some out_buffer) s3
                               else
                                 (let got = take (unat len + 1) (get_report_data env);
                                      buffer2 = got @ drop (length got) buffer
                                  in (Some out_buffer, store out_buffer (tl buffer2) s3))))))
           | OtherSubsystem k \<Rightarrow> hid_request_fail use_same_buffer (Some out_buffer) s1))"

subsection \<open>Opening a device\<close>

datatype 'a outcome = Crashed | Returns 'a

text \<open>\<^verbatim>\<open>strstr\<close>: the rest of the string from the first occurrence of the needle on.\<close>

fun strstr :: "string \<Rightarrow> string \<Rightarrow> string option" where
  "strstr [] needle = (if needle = [] then Some [] else None)"
| "strstr (c # cs) needle =
     (if take (length needle) (c # cs) = needle then Some (c # cs) else strstr cs needle)"

text \<open>What the surroundings decide during \<^verbatim>\<open>sccd_usb_dev_open_by_syspath\<close>.
  \<^verbatim>\<open>strtol\<close> gives the value and the number of characters it consumed.
  Modelled from the spec: \<^verbatim>\<open>read_long_from_file\<close> and \<^verbatim>\<open>scc_path_break_slashes\<close>
  are declared in scc/tools.h, which is not among the sources; they are taken as given
  functions. \<open>device_list\<close> is what \<^verbatim>\<open>libusb_get_device_list\<close> produces: \<open>None\<close> when it
  returns a negative count and leaves the list \<^verbatim>\<open>NULL\<close>, otherwise the bus number and
  the address of every device. \<open>libusb_open\<close> gives, for the device at a position of
  that list, the error code and the native handle.\<close>

record open_env =
  handle_ok :: bool
  hid_open_path :: "string \<Rightarrow> ptr"
  scc_path_break_slashes :: "string \<Rightarrow> string"
  strtol :: "string \<Rightarrow> nat \<Rightarrow> int \<times> nat"
  read_long_from_file :: "string \<Rightarrow> nat \<Rightarrow> int"
  device_list :: "(u8 \<times> u8) list option"
  libusb_open :: "nat \<Rightarrow> int \<times> ptr"

definition BUFFER_SIZE :: nat where "BUFFER_SIZE = 4096"

definition get_usb_address :: "open_env \<Rightarrow> string \<Rightarrow> (u8 \<times> u8) option outcome" where
  "get_usb_address env syspath =
     (if strstr syspath ''/win32/usb/'' = Some syspath then
        (let s_bus = drop (length ''/win32/usb/'') syspath in
         case strstr s_bus ''/'' of
           None \<Rightarrow> Crashed  \<comment> \<open>\<^verbatim>\<open>strtol\<close> is handed \<^verbatim>\<open>NULL + 1\<close>\<close>
         | Some rest \<Rightarrow>
             (let s_dev = drop 1 rest;
                  l_bus = fst (strtol env s_bus 16);
                  l_dev = fst (strtol env s_dev 16)
              in Returns (Some (word_of_int l_bus, word_of_int l_dev))))
      else if length syspath + length ''/busnum'' \<ge> BUFFER_SIZE then Returns None
      else
        (let i = read_long_from_file env (syspath @ ''/busnum'') 10 in
         if i < 0 then Returns None
         else
           (let j = read_long_from_file env (syspath @ ''/devnum'') 10 in
            if j < 0 then Returns None
            else Returns (Some (word_of_int i, word_of_int j)))))"

text \<open>The code from the label \<^verbatim>\<open>sccd_usb_helper_open_by_syspath_end\<close> on: it returns
  the variable \<^verbatim>\<open>hndl\<close> as it stands.\<close>

definition open_by_syspath_end :: "bool \<Rightarrow> ptr \<Rightarrow> world \<Rightarrow> ptr \<times> world" where
  "open_by_syspath_end have_list hndl s = (hndl, if have_list then emit FreeDeviceList s else s)"

text \<open>The \<^verbatim>\<open>for\<close> loop over the device list, from position \<open>i\<close> on.\<close>

fun open_scan :: "open_env \<Rightarrow> u8 \<Rightarrow> u8 \<Rightarrow> (u8 \<times> u8) list \<Rightarrow> nat \<Rightarrow> world \<Rightarrow> ptr \<times> world" where
  "open_scan env syspath_bus syspath_dev [] i s = open_by_syspath_end True None s"
| "open_scan env syspath_bus syspath_dev ((bus, dev) # rest) i s =
     (if bus = syspath_bus \<and> dev = syspath_dev then
        (case malloc (handle_ok env) HandleBlock s of
           (None, s1) \<Rightarrow> open_by_syspath_end True None s1
         | (Some hndl, s1) \<Rightarrow>
             (let s2 = emit (LibusbOpen i) s1 in
              case libusb_open env i of (err, usb) \<Rightarrow>
                if err \<noteq> 0
                then open_by_syspath_end True (Some hndl) (free (Some hndl) s2)
                else
                  (let s3 = emit (SetAutoDetachKernelDriver usb) s2;
                       s4 = s3\<lparr>handles := (handles s3)(hndl := (handles s3 hndl)
                                   \<lparr>sys := USB, usb_hid := usb\<rparr>)\<rparr>
                   in open_by_syspath_end True (Some hndl) s4)))
      else open_scan env syspath_bus syspath_dev rest (Suc i) s)"

text \<open>\<^verbatim>\<open>strncpy\<close> stops after 1023 characters (and then writes no terminator: the model
  keeps the 1023 characters and leaves out whatever the array held behind them).\<close>

definition sccd_usb_dev_open_by_syspath :: "open_env \<Rightarrow> string \<Rightarrow> world \<Rightarrow> (ptr \<times> world) outcome" where
  "sccd_usb_dev_open_by_syspath env syspath s =
     (if strstr syspath ''/hidapi/'' = Some syspath then
        (let device_path = scc_path_break_slashes env (take 1023 (drop 7 syspath)) in
         case malloc (handle_ok env) HandleBlock s of
           (None, s1) \<Rightarrow> Returns (None, s1)
         | (Some hndl, s1) \<Rightarrow>
             (let s2 = emit (HidOpenPath device_path) s1 in
              case hid_open_path env device_path of
                None \<Rightarrow> Returns (None, free (Some hndl) s2)
              | Some hid \<Rightarrow>
                  (let parsed =
                         (case strstr device_path ''&mi_'' of
                            None \<Rightarrow> - 1
                          | Some interface_component \<Rightarrow>
                              (case strtol env (drop 4 interface_component) 16 of
                                 (v, used) \<Rightarrow> if used = 0 then - 1 else v))
                   in Returns (Some hndl,
                        s2\<lparr>handles := (handles s2)(hndl :=
                              \<lparr>sys = HIDAPI, usb_hid = Some hid, idx = parsed\<rparr>)\<rparr>))))
      else
        (case get_usb_address env syspath of
           Crashed \<Rightarrow> Crashed
         | Returns None \<Rightarrow> Returns (open_by_syspath_end False None s)
         | Returns (Some (syspath_bus, syspath_dev)) \<Rightarrow>
             (case device_list env of
                None \<Rightarrow> Returns (open_by_syspath_end False None s)
              | Some devs \<Rightarrow> Returns (open_scan env syspath_bus syspath_dev devs 0 s))))"

subsection \<open>Reading a run off the trace\<close>

fun is_callback :: "event \<Rightarrow> bool" where
  "is_callback (UserCallback c h e b u) = True"
| "is_callback _ = False"

definition callbacks :: "event list \<Rightarrow> event list" where
  "callbacks evs = filter is_callback evs"

text \<open>The events of a run that took the world from \<open>s\<close> to \<open>s'\<close>.\<close>

definition since :: "world \<Rightarrow> world \<Rightarrow> event list" where
  "since s s' = drop (length (trace s)) (trace s')"

text \<open>The user callback a delivery record stands for.\<close>

definition callback_of :: "world \<Rightarrow> addr \<Rightarrow> event" where
  "callback_of s a =
     UserCallback (i_cb (requests s a)) (i_hndl (requests s a)) (i_endpoint (requests s a))
       (i_buffer (requests s a)) (i_userdata (requests s a))"

text \<open>An allocation of \<^verbatim>\<open>input_interrupt_cb\<close> fails: one of the three the handler always
  attempts, or the one it attempts after a failed resubmission.\<close>

definition alloc_fails :: "completion_env \<Rightarrow> bool" where
  "alloc_fails env =
     (\<not> list_allocate_ok env \<or> \<not> scheduled_ok env \<or> \<not> buffer_copy_ok env \<or>
      (resubmit_err env \<noteq> 0 \<and> \<not> scheduled2_ok env))"

subsection \<open>Sample worlds\<close>

text \<open>Two opened devices: at address 0 a handle of the event-driven backend, at address 1
  a handle of the blocking-read backend opened for sub-interface 5, and at address 2 a
  caller's buffer of eight bytes. The rest of memory is whatever the parameter says the
  allocator left in a request record.\<close>

definition world0 :: "InputInterruptData \<Rightarrow> world" where
  "world0 junk =
     \<lparr>brk = 3,
      live = [0 \<mapsto> HandleBlock, 1 \<mapsto> HandleBlock, 2 \<mapsto> Bytes 8],
      handles = (\<lambda>a. if a = 1 then \<lparr>sys = HIDAPI, usb_hid = Some 101, idx = 5\<rparr>
                      else \<lparr>sys = USB, usb_hid = Some 100, idx = 0\<rparr>),
      requests = (\<lambda>a. junk),
      bytes = (\<lambda>a i. 0),
      transfers = (\<lambda>a. \<lparr>t_dev_handle = None, t_endpoint = 0, t_buffer = 0, t_length = 0,
                          t_actual_length = 0, t_user_data = 0, t_timeout = 0\<rparr>),
      scheduled_interupts = [],
      trace = []\<rparr>"

definition zeroed :: InputInterruptData where
  "zeroed = \<lparr>i_cb = 0, i_hndl = 0, i_endpoint = 0, i_buffer = None, i_length = 0,
             i_userdata = None\<rparr>"

definition stale :: InputInterruptData where
  "stale = \<lparr>i_cb = 0, i_hndl = 0, i_endpoint = 0xEE, i_buffer = None, i_length = 8,
            i_userdata = None\<rparr>"

definition completes :: completion_env where
  "completes = \<lparr>list_allocate_ok = True, scheduled_ok = True, buffer_copy_ok = True,
                resubmit_err = 0, scheduled2_ok = True\<rparr>"

definition all_ok :: loop_env where
  "all_ok = \<lparr>buffer_ok = True, idata_ok = True, transfer_ok = True, submit_err = 0\<rparr>"

text \<open>The world after \<^verbatim>\<open>interupt_read_loop(handle 0, 0x81, 64, cb 7, NULL)\<close> has
  succeeded: buffer at 3, request record at 4, transfer at 5.\<close>

definition armed :: "InputInterruptData \<Rightarrow> world" where
  "armed junk = snd (sccd_usb_dev_interupt_read_loop all_ok 0 0x81 64 7 None (world0 junk))"

text \<open>A device that answers a feature-report request with nine bytes.\<close>

definition answers :: request_env where
  "answers = \<lparr>out_buffer_ok = True, set_report_err = 9, get_report_err = 9,
               get_report_data = [0, 10, 20, 30, 40, 50, 60, 70, 80]\<rparr>"

text \<open>A machine on which the device at bus 1, address 2 is enumerated second and cannot
  be opened (\<^verbatim>\<open>LIBUSB_ERROR_ACCESS\<close>).\<close>

definition open_denied :: open_env where
  "open_denied =
     \<lparr>handle_ok = True,
      hid_open_path = (\<lambda>p. None),
      scc_path_break_slashes = (\<lambda>p. p),
      strtol = (\<lambda>str base. if str = ''1/2'' then (1, 1) else if str = ''2'' then (2, 1) else (0, 0)),
      read_long_from_file = (\<lambda>p base. - 1),
      device_list = Some [(1, 3), (1, 2)],
      libusb_open = (\<lambda>i. (- 3, None))\<rparr>"

text \<open>The world once four bytes have arrived for that transfer.\<close>

definition arrived :: "InputInterruptData \<Rightarrow> world" where
  "arrived junk = complete_transfer 5 [1, 2, 3, 4] (armed junk)"

text \<open>The same world with three deliveries waiting, each an allocated record with an
  allocated buffer of four bytes: the records at 10 and 12 belong to handle 0, the record
  at 11 to handle 1.\<close>

definition backlog :: "InputInterruptData \<Rightarrow> world" where
  "backlog junk =
     (arrived junk)
       \<lparr>brk := 20,
        live := (live (arrived junk))
          (10 \<mapsto> RequestBlock, 11 \<mapsto> RequestBlock, 12 \<mapsto> RequestBlock,
           13 \<mapsto> Bytes 4, 14 \<mapsto> Bytes 4, 15 \<mapsto> Bytes 4),
        requests := (requests (arrived junk))
          (10 := \<lparr>i_cb = 7, i_hndl = 0, i_endpoint = 1, i_buffer = Some 13, i_length = 0,
                  i_userdata = None\<rparr>,
           11 := \<lparr>i_cb = 8, i_hndl = 1, i_endpoint = 2, i_buffer = Some 14, i_length = 0,
                  i_userdata = None\<rparr>,
           12 := \<lparr>i_cb = 7, i_hndl = 0, i_endpoint = 1, i_buffer = Some 15, i_length = 0,
                  i_userdata = None\<rparr>),
        scheduled_interupts := [10, 11, 12]\<rparr>"

section \<open>What the primitives leave alone\<close>

lemma free_proj:
  "brk (free p s) = brk s" "handles (free p s) = handles s" "requests (free p s) = requests s"
  "bytes (free p s) = bytes s" "transfers (free p s) = transfers s"
  "scheduled_interupts (free p s) = scheduled_interupts s" "trace (free p s) = trace s"
  by (simp_all add: free_def split: option.splits)

lemma live_free:
  "live (free p s) = (case p of None \<Rightarrow> live s | Some a \<Rightarrow> (live s)(a := None))"
  by (simp add: free_def split: option.splits)

lemma emit_proj:
  "brk (emit e s) = brk s" "live (emit e s) = live s" "handles (emit e s) = handles s"
  "requests (emit e s) = requests s" "bytes (emit e s) = bytes s"
  "transfers (emit e s) = transfers s"
  "scheduled_interupts (emit e s) = scheduled_interupts s" "trace (emit e s) = trace s @ [e]"
  by (simp_all add: emit_def)

lemma store_proj:
  "brk (store a d s) = brk s" "live (store a d s) = live s" "handles (store a d s) = handles s"
  "requests (store a d s) = requests s" "transfers (store a d s) = transfers s"
  "scheduled_interupts (store a d s) = scheduled_interupts s" "trace (store a d s) = trace s"
  "b \<noteq> a \<Longrightarrow> bytes (store a d s) b = bytes s b"
  by (simp_all add: store_def)

lemma live_update_cong: "f = g \<Longrightarrow> s\<lparr>live := f\<rparr> = s\<lparr>live := g\<rparr>"
  by simp

section \<open>The out-of-memory path of the completion handler\<close>

text \<open>Filtering with \<^verbatim>\<open>remove_si_by_device\<close> keeps, in order, the records of the other
  handles, frees the dropped records and touches nothing else.\<close>

lemma filter_items_remove:
  "filter_items remove_si_by_device h xs s =
     (filter (\<lambda>a. i_hndl (requests s a) \<noteq> h) xs,
      s\<lparr>live := (\<lambda>x. if x \<in> set xs \<and> i_hndl (requests s x) = h then None else live s x)\<rparr>)"
proof (induction xs arbitrary: s)
  case Nil
  show ?case by simp
next
  case (Cons x xs)
  show ?case
  proof (cases "i_hndl (requests s x) = h")
    case True
    have r: "remove_si_by_device x h s = (False, s\<lparr>live := (live s)(x := None)\<rparr>)"
      using True by (simp add: remove_si_by_device_def free_def)
    show ?thesis
      using True by (simp add: r Cons) (rule live_update_cong, auto simp: fun_eq_iff)
  next
    case False
    have r: "remove_si_by_device x h s = (True, s)"
      using False by (simp add: remove_si_by_device_def)
    show ?thesis
      using False by (simp add: r Cons) (rule live_update_cong, auto simp: fun_eq_iff)
  qed
qed

lemma list_filter_proj:
  "scheduled_interupts (list_filter remove_si_by_device h s) =
     filter (\<lambda>a. i_hndl (requests s a) \<noteq> h) (scheduled_interupts s)"
  "live (list_filter remove_si_by_device h s) =
     (\<lambda>x. if x \<in> set (scheduled_interupts s) \<and> i_hndl (requests s x) = h then None
          else live s x)"
  "requests (list_filter remove_si_by_device h s) = requests s"
  "bytes (list_filter remove_si_by_device h s) = bytes s"
  "transfers (list_filter remove_si_by_device h s) = transfers s"
  "trace (list_filter remove_si_by_device h s) = trace s"
  "brk (list_filter remove_si_by_device h s) = brk s"
  by (simp_all add: list_filter_def filter_items_remove)

lemma error_proj:
  "scheduled_interupts (input_interrupt_cb_error t s) = scheduled_interupts s"
  "requests (input_interrupt_cb_error t s) = requests s"
  "bytes (input_interrupt_cb_error t s) = bytes s"
  "trace (input_interrupt_cb_error t s) = trace s"
  "brk (input_interrupt_cb_error t s) = brk s"
  by (simp_all add: input_interrupt_cb_error_def Let_def libusb_free_transfer_def free_proj)

lemma live_error:
  "live (input_interrupt_cb_error t s) x =
     (if x = t \<or> x = t_user_data (transfers s t) \<or>
         i_buffer (requests s (t_user_data (transfers s t))) = Some x
      then None else live s x)"
  by (simp add: input_interrupt_cb_error_def Let_def libusb_free_transfer_def free_proj
        live_free split: option.splits)

lemma oom_proj:
  "scheduled_interupts (input_interrupt_cb_oom t sc bc s) =
     filter (\<lambda>a. i_hndl (requests s a) \<noteq> i_hndl (requests s (t_user_data (transfers s t))))
       (scheduled_interupts s)"
  "requests (input_interrupt_cb_oom t sc bc s) = requests s"
  "bytes (input_interrupt_cb_oom t sc bc s) = bytes s"
  "brk (input_interrupt_cb_oom t sc bc s) = brk s"
  "trace (input_interrupt_cb_oom t sc bc s) =
     trace s @ [UserCallback (i_cb (requests s (t_user_data (transfers s t))))
                  (i_hndl (requests s (t_user_data (transfers s t))))
                  (t_endpoint (transfers s t)) None
                  (i_userdata (requests s (t_user_data (transfers s t))))]"
  by (simp_all add: input_interrupt_cb_oom_def Let_def error_proj emit_proj list_filter_proj
        free_proj)

lemma live_oom:
  "x \<in> set (scheduled_interupts s) \<Longrightarrow>
   i_hndl (requests s x) = i_hndl (requests s (t_user_data (transfers s t))) \<Longrightarrow>
   live (input_interrupt_cb_oom t sc bc s) x = None"
  by (simp add: input_interrupt_cb_oom_def Let_def live_error emit_proj list_filter_proj
        free_proj)

text \<open>The four places at which the handler can run out of memory.\<close>

lemma cb_no_list:
  "\<not> list_allocate_ok env \<Longrightarrow>
   input_interrupt_cb env t s = input_interrupt_cb_oom t None None s"
  by (simp add: input_interrupt_cb_def Let_def)

lemma cb_no_scheduled:
  "list_allocate_ok env \<Longrightarrow> \<not> scheduled_ok env \<Longrightarrow>
   input_interrupt_cb env t s =
     input_interrupt_cb_oom t None
       (fst (malloc (buffer_copy_ok env) (Bytes (nat (t_actual_length (transfers s t)))) s))
       (snd (malloc (buffer_copy_ok env) (Bytes (nat (t_actual_length (transfers s t)))) s))"
  by (simp add: input_interrupt_cb_def Let_def malloc_def split: prod.splits option.splits)

lemma cb_no_copy:
  "list_allocate_ok env \<Longrightarrow> scheduled_ok env \<Longrightarrow> \<not> buffer_copy_ok env \<Longrightarrow>
   input_interrupt_cb env t s =
     input_interrupt_cb_oom t (Some (brk s)) None
       (s\<lparr>brk := Suc (brk s), live := (live s)(brk s \<mapsto> RequestBlock)\<rparr>)"
  by (simp add: input_interrupt_cb_def Let_def malloc_def)

lemma cb_no_second:
  "list_allocate_ok env \<Longrightarrow> scheduled_ok env \<Longrightarrow> buffer_copy_ok env \<Longrightarrow>
   resubmit_err env \<noteq> 0 \<Longrightarrow> \<not> scheduled2_ok env \<Longrightarrow>
   input_interrupt_cb env t s =
     input_interrupt_cb_oom t None None
       (s\<lparr>brk := Suc (Suc (brk s)),
          live := (live s)(brk s \<mapsto> RequestBlock,
                           Suc (brk s) \<mapsto> Bytes (nat (t_actual_length (transfers s t)))),
          bytes := (bytes s)(Suc (brk s) :=
             (\<lambda>i. if i < nat (t_actual_length (transfers s t))
                  then bytes s (t_buffer (transfers s t)) i else bytes s (Suc (brk s)) i)),
          requests := (requests s)(brk s := (requests s (t_user_data (transfers s t)))
             \<lparr>i_buffer := Some (Suc (brk s)),
              i_endpoint := t_endpoint (transfers s t) AND NOT LIBUSB_ENDPOINT_DIR_MASK\<rparr>),
          scheduled_interupts := scheduled_interupts s @ [brk s],
          trace := trace s @ [ListAdd (brk s), SubmitTransfer t (resubmit_err env)]\<rparr>)"
  by (simp add: input_interrupt_cb_def Let_def malloc_def memcpy_def list_add_def emit_def
        cong: if_cong)

section \<open>The paths of the completion handler on which every allocation succeeds\<close>


lemma completion_ends_loop:
  fixes s t env
  assumes ok: "\<not> alloc_fails env" and sub: "resubmit_err env \<noteq> 0"
      and old: "t_user_data (transfers s t) < brk s"
  defines "s' \<equiv> input_interrupt_cb env t s"
  defines "tr \<equiv> transfers s t"
  shows "scheduled_interupts s' = scheduled_interupts s @ [brk s, Suc (Suc (brk s))]"
    and "requests s' (brk s) = (requests s (t_user_data tr))
           \<lparr>i_buffer := Some (Suc (brk s)),
            i_endpoint := t_endpoint tr AND NOT LIBUSB_ENDPOINT_DIR_MASK\<rparr>"
    and "load s' (Suc (brk s)) (nat (t_actual_length tr)) =
           load s (t_buffer tr) (nat (t_actual_length tr))"
    and "requests s' (Suc (Suc (brk s))) = (requests s (t_user_data tr))\<lparr>i_buffer := None\<rparr>"
    and "trace s' = trace s @ [ListAdd (brk s), SubmitTransfer t (resubmit_err env),
                               ListAdd (Suc (Suc (brk s)))]"
    and "live s' t = None" and "live s' (t_user_data tr) = None"
  using ok sub old unfolding s'_def tr_def alloc_fails_def
  by (simp_all add: input_interrupt_cb_def Let_def malloc_def memcpy_def list_add_def emit_def
        load_def error_proj live_error)

section \<open>The drain\<close>

lemma deliver_proj:
  "requests (deliver a s) = requests s"
  "trace (deliver a s) = trace s @ [callback_of s a]"
  "scheduled_interupts (deliver a s) = scheduled_interupts s"
  "brk (deliver a s) = brk s"
  by (simp_all add: deliver_def Let_def free_proj emit_proj callback_of_def)

lemma live_deliver:
  "live (deliver a s) =
     (\<lambda>x. if x = a \<or> i_buffer (requests s a) = Some x then None else live s x)"
  by (auto simp: deliver_def Let_def live_free emit_proj free_proj fun_eq_iff
        split: option.splits)

lemma fold_deliver_requests: "requests (fold deliver xs s) = requests s"
  by (induction xs arbitrary: s) (simp_all add: deliver_proj)

lemma fold_deliver_trace: "trace (fold deliver xs s) = trace s @ map (callback_of s) xs"
  by (induction xs arbitrary: s)
     (simp_all add: deliver_proj callback_of_def fold_deliver_requests)

lemma fold_deliver_live:
  "live (fold deliver xs s) =
     (\<lambda>x. if x \<in> set xs \<or> (\<exists>a\<in>set xs. i_buffer (requests s a) = Some x) then None
          else live s x)"
  by (induction xs arbitrary: s) (auto simp: deliver_proj live_deliver fun_eq_iff)

section \<open>Bits and lengths\<close>

lemma force_in: "((e :: u8) AND NOT LIBUSB_ENDPOINT_DIR_MASK) OR LIBUSB_ENDPOINT_IN = e OR 0x80"
  unfolding LIBUSB_ENDPOINT_DIR_MASK_def LIBUSB_ENDPOINT_IN_def
  by (auto simp add: bit_eq_iff bit_simps)

lemma mask_differs: "(e :: u8) AND 0x80 = 0x80 \<Longrightarrow> e AND NOT LIBUSB_ENDPOINT_DIR_MASK \<noteq> e"
proof
  assume a: "e AND 0x80 = 0x80" and b: "e AND NOT LIBUSB_ENDPOINT_DIR_MASK = e"
  have "bit (e AND 0x80) 7" unfolding a by simp
  then have "bit e 7" by (simp add: bit_and_iff)
  moreover have "\<not> bit (e AND NOT LIBUSB_ENDPOINT_DIR_MASK) 7"
    by (simp add: bit_and_iff bit_not_iff LIBUSB_ENDPOINT_DIR_MASK_def)
  ultimately show False using b by simp
qed

lemma low16_sint: "take_bit 16 (sint (x :: i32)) = take_bit 16 (uint x)"
  by (simp add: sint_uint take_bit_signed_take_bit)

lemma low16_neg: "take_bit 16 (- sint (x :: i32)) = take_bit 16 (- uint x)"
proof -
  have "take_bit 16 (- sint x) = take_bit 16 (- take_bit 16 (sint x))"
    by (simp add: take_bit_minus)
  also have "\<dots> = take_bit 16 (- take_bit 16 (uint x))"
    by (simp only: low16_sint)
  also have "\<dots> = take_bit 16 (- uint x)"
    by (simp add: take_bit_minus)
  finally show ?thesis .
qed

lemma uint_ucast16: "uint (ucast (y :: i32) :: u16) = take_bit 16 (uint y)"
  by (simp add: unsigned_ucast_eq)

lemma len_neg:
  assumes "sint (x :: i32) < 0" "- 65536 < sint x"
  shows "uint (ucast (- x) :: u16) = - sint x"
proof -
  have "uint (ucast (- x) :: u16) = take_bit 16 (uint (- x))" by (rule uint_ucast16)
  also have "\<dots> = take_bit 16 (take_bit 32 (- uint x))" by (simp add: uint_word_arith_bintrs)
  also have "\<dots> = take_bit 16 (- uint x)" by simp
  also have "\<dots> = take_bit 16 (- sint x)" by (simp only: low16_neg)
  also have "\<dots> = - sint x" using assms by (simp add: take_bit_int_eq_self)
  finally show ?thesis .
qed

lemma len_pos:
  assumes "0 \<le> sint (x :: i32)" "sint x < 65536"
  shows "uint (ucast x :: u16) = sint x"
proof -
  have "uint (ucast x :: u16) = take_bit 16 (uint x)" by (rule uint_ucast16)
  also have "\<dots> = take_bit 16 (sint x)" by (simp only: low16_sint)
  also have "\<dots> = sint x" using assms by (simp add: take_bit_int_eq_self)
  finally show ?thesis .
qed

lemma request_length_abs:
  "\<bar>sint len32\<bar> < 65536 \<Longrightarrow> int (unat (request_length len32)) = \<bar>sint len32\<bar>"
  by (auto simp: request_length_def len_neg len_pos)

section \<open>The sample worlds, evaluated\<close>

lemma world0_proj:
  "brk (world0 junk) = 3"
  "live (world0 junk) = [0 \<mapsto> HandleBlock, 1 \<mapsto> HandleBlock, 2 \<mapsto> Bytes 8]"
  "handles (world0 junk) 0 = \<lparr>sys = USB, usb_hid = Some 100, idx = 0\<rparr>"
  "handles (world0 junk) (Suc 0) = \<lparr>sys = HIDAPI, usb_hid = Some 101, idx = 5\<rparr>"
  "requests (world0 junk) = (\<lambda>a. junk)"
  "bytes (world0 junk) = (\<lambda>a i. 0)"
  "scheduled_interupts (world0 junk) = []"
  "trace (world0 junk) = []"
  by (simp_all add: world0_def)


lemma armed_eval: "armed junk =
  \<lparr>brk = 6,
   live = [0 \<mapsto> HandleBlock, 1 \<mapsto> HandleBlock, 2 \<mapsto> Bytes 8, 3 \<mapsto> Bytes 64,
           4 \<mapsto> RequestBlock, 5 \<mapsto> TransferBlock],
   handles = (\<lambda>a. if a = 1 then \<lparr>sys = HIDAPI, usb_hid = Some 101, idx = 5\<rparr>
                      else \<lparr>sys = USB, usb_hid = Some 100, idx = 0\<rparr>),
   requests = (\<lambda>a. junk)(4 := junk\<lparr>i_cb := 7, i_hndl := 0, i_buffer := Some 3, i_userdata := None\<rparr>),
   bytes = (\<lambda>a i. 0),
   transfers = (\<lambda>a. \<lparr>t_dev_handle = None, t_endpoint = 0, t_buffer = 0, t_length = 0,
                          t_actual_length = 0, t_user_data = 0, t_timeout = 0\<rparr>)
      (5 := \<lparr>t_dev_handle = Some 100, t_endpoint = 0x81, t_buffer = 3, t_length = 64,
              t_actual_length = 0, t_user_data = 4, t_timeout = 0\<rparr>),
   scheduled_interupts = [], trace = [SubmitTransfer 5 0]\<rparr>"
  by (simp add: armed_def sccd_usb_dev_interupt_read_loop_def world0_def all_ok_def malloc_def
     libusb_alloc_transfer_def libusb_fill_interrupt_transfer_def emit_def Let_def
     LIBUSB_ENDPOINT_DIR_MASK_def LIBUSB_ENDPOINT_IN_def)

lemma arrived_proj:
  "brk (arrived junk) = 6"
  "requests (arrived junk) = (\<lambda>a. junk)(4 := junk\<lparr>i_cb := 7, i_hndl := 0, i_buffer := Some 3, i_userdata := None\<rparr>)"
  "transfers (arrived junk) 5 = \<lparr>t_dev_handle = Some 100, t_endpoint = 0x81, t_buffer = 3, t_length = 64,
              t_actual_length = 4, t_user_data = 4, t_timeout = 0\<rparr>"
  "scheduled_interupts (arrived junk) = []"
  "trace (arrived junk) = [SubmitTransfer 5 0]"
  "load (arrived junk) 3 4 = [1, 2, 3, 4]"
  "live (arrived junk) = [0 \<mapsto> HandleBlock, 1 \<mapsto> HandleBlock, 2 \<mapsto> Bytes 8, 3 \<mapsto> Bytes 64,
           4 \<mapsto> RequestBlock, 5 \<mapsto> TransferBlock]"
  by (simp_all add: arrived_def armed_eval complete_transfer_def store_def Let_def load_def upt_rec)

lemma backlog_proj:
  "brk (backlog junk) = 20"
  "transfers (backlog junk) 5 = \<lparr>t_dev_handle = Some 100, t_endpoint = 0x81, t_buffer = 3, t_length = 64,
              t_actual_length = 4, t_user_data = 4, t_timeout = 0\<rparr>"
  "scheduled_interupts (backlog junk) = [10, 11, 12]"
  "trace (backlog junk) = [SubmitTransfer 5 0]"
  "requests (backlog junk) 4 = junk\<lparr>i_cb := 7, i_hndl := 0, i_buffer := Some 3, i_userdata := None\<rparr>"
  "requests (backlog junk) 10 = \<lparr>i_cb = 7, i_hndl = 0, i_endpoint = 1, i_buffer = Some 13, i_length = 0,
                  i_userdata = None\<rparr>"
  "requests (backlog junk) 11 = \<lparr>i_cb = 8, i_hndl = 1, i_endpoint = 2, i_buffer = Some 14, i_length = 0,
                  i_userdata = None\<rparr>"
  "requests (backlog junk) 12 = \<lparr>i_cb = 7, i_hndl = 0, i_endpoint = 1, i_buffer = Some 15, i_length = 0,
                  i_userdata = None\<rparr>"
  by (simp_all add: backlog_def arrived_proj)

section \<open>Claims about the completion handler and the drain\<close>

text \<open>Which blocks the out-of-memory path releases.\<close>

lemma live_oom_old:
  "live (input_interrupt_cb_oom t sc bc s) a =
     (if a = t \<or> a = t_user_data (transfers s t) \<or>
         i_buffer (requests s (t_user_data (transfers s t))) = Some a \<or>
         a \<in> set (scheduled_interupts s) \<and>
         i_hndl (requests s a) = i_hndl (requests s (t_user_data (transfers s t))) \<or>
         sc = Some a \<or> bc = Some a
      then None else live s a)"
  by (auto simp: input_interrupt_cb_oom_def Let_def live_error emit_proj list_filter_proj
        free_proj live_free split: option.splits)

lemma backlog_live:
  "live (backlog junk) =
     [0 \<mapsto> HandleBlock, 1 \<mapsto> HandleBlock, 2 \<mapsto> Bytes 8, 3 \<mapsto> Bytes 64,
      4 \<mapsto> RequestBlock, 5 \<mapsto> TransferBlock,
      10 \<mapsto> RequestBlock, 11 \<mapsto> RequestBlock, 12 \<mapsto> RequestBlock,
      13 \<mapsto> Bytes 4, 14 \<mapsto> Bytes 4, 15 \<mapsto> Bytes 4]"
  by (simp add: backlog_def arrived_proj)




text \<open>
  \<^bold>\<open>C2\<close>. If an allocation fails inside the completion handler of a transfer of handle
  \<open>H\<close>, then the queue afterwards holds exactly the records of the other handles, in
  their old order; no record and no buffer that existed before the call has changed its
  contents; a block that existed before the call has been released exactly when it is
  the transfer, its request record, that record's buffer or a queued record of \<open>H\<close>, and
  is allocated as before otherwise, so every queued record of \<open>H\<close> is released and every
  queued record of another handle is as allocated as it was; and the handler has called
  a user callback exactly once, \<open>H\<close>'s, with a null buffer. The request record of the
  transfer and the queued records are taken to be earlier allocations.
\<close>

theorem oom_tears_down_one_handle:
  assumes fails: "alloc_fails env"
      and old: "t_user_data (transfers s t) < brk s"
      and olds: "\<forall>a\<in>set (scheduled_interupts s). a < brk s"
  shows "let s' = input_interrupt_cb env t s;
             idata = requests s (t_user_data (transfers s t))
         in scheduled_interupts s' =
              filter (\<lambda>a. i_hndl (requests s a) \<noteq> i_hndl idata) (scheduled_interupts s) \<and>
            (\<forall>a<brk s. requests s' a = requests s a \<and> bytes s' a = bytes s a) \<and>
            (\<forall>a<brk s. live s' a =
               (if a = t \<or> a = t_user_data (transfers s t) \<or> i_buffer idata = Some a \<or>
                   a \<in> set (scheduled_interupts s) \<and> i_hndl (requests s a) = i_hndl idata
                then None else live s a)) \<and>
            (\<forall>a\<in>set (scheduled_interupts s).
               i_hndl (requests s a) = i_hndl idata \<longrightarrow> live s' a = None) \<and>
            (\<forall>a\<in>set (scheduled_interupts s).
               i_hndl (requests s a) \<noteq> i_hndl idata \<longrightarrow>
               a \<noteq> t \<longrightarrow> a \<noteq> t_user_data (transfers s t) \<longrightarrow> i_buffer idata \<noteq> Some a \<longrightarrow>
               live s' a = live s a) \<and>
            take (length (trace s)) (trace s') = trace s \<and>
            callbacks (since s s') =
              [UserCallback (i_cb idata) (i_hndl idata) (t_endpoint (transfers s t)) None
                 (i_userdata idata)]"
proof -
  have ne: "t_user_data (transfers s t) \<noteq> brk s"
    using old by simp
  have nes: "\<forall>a\<in>set (scheduled_interupts s). a \<noteq> brk s \<and> a \<noteq> Suc (brk s)"
    using olds by auto
  consider (a) "\<not> list_allocate_ok env"
    | (b) "list_allocate_ok env" "\<not> scheduled_ok env"
    | (c) "list_allocate_ok env" "scheduled_ok env" "\<not> buffer_copy_ok env"
    | (d) "list_allocate_ok env" "scheduled_ok env" "buffer_copy_ok env"
          "resubmit_err env \<noteq> 0" "\<not> scheduled2_ok env"
    using fails by (auto simp: alloc_fails_def)
  then show ?thesis
  proof cases
    case a
    show ?thesis
      unfolding Let_def cb_no_list[OF a]
      by (simp add: oom_proj live_oom_old callbacks_def since_def)
  next
    case b
    show ?thesis
      unfolding Let_def cb_no_scheduled[OF b] using nes
      by (cases "buffer_copy_ok env")
         (auto simp: oom_proj live_oom_old callbacks_def since_def malloc_def)
  next
    case c
    show ?thesis
      unfolding Let_def cb_no_copy[OF c] using nes
      by (auto simp: oom_proj live_oom_old callbacks_def since_def)
  next
    case d
    show ?thesis
      unfolding Let_def cb_no_second[OF d]
      using ne nes by (auto simp: oom_proj live_oom_old callbacks_def since_def cong: filter_cong)
  qed
qed

text \<open>C2 at a sample completion: the copy of the received bytes cannot be allocated while
  two deliveries of handle 0 and one of handle 1 are waiting, all three allocated. The
  two of handle 0 are released; the one of handle 1 and its buffer stay allocated.\<close>

theorem oom_tears_down_one_handle_witness:
  "alloc_fails (completes\<lparr>buffer_copy_ok := False\<rparr>) \<and>
   t_user_data (transfers (backlog zeroed) 5) = 4 \<and>
   scheduled_interupts (backlog zeroed) = [10, 11, 12] \<and>
   brk (backlog zeroed) = 20 \<and>
   i_hndl (requests (backlog zeroed) 4) = 0 \<and>
   live (backlog zeroed) 10 = Some RequestBlock \<and>
   live (backlog zeroed) 11 = Some RequestBlock \<and>
   live (backlog zeroed) 12 = Some RequestBlock \<and>
   scheduled_interupts (input_interrupt_cb (completes\<lparr>buffer_copy_ok := False\<rparr>) 5 (backlog zeroed)) =
     [11] \<and>
   requests (input_interrupt_cb (completes\<lparr>buffer_copy_ok := False\<rparr>) 5 (backlog zeroed)) 11 =
     requests (backlog zeroed) 11 \<and>
   live (input_interrupt_cb (completes\<lparr>buffer_copy_ok := False\<rparr>) 5 (backlog zeroed)) 10 = None \<and>
   live (input_interrupt_cb (completes\<lparr>buffer_copy_ok := False\<rparr>) 5 (backlog zeroed)) 11 =
     Some RequestBlock \<and>
   live (input_interrupt_cb (completes\<lparr>buffer_copy_ok := False\<rparr>) 5 (backlog zeroed)) 12 = None \<and>
   live (input_interrupt_cb (completes\<lparr>buffer_copy_ok := False\<rparr>) 5 (backlog zeroed)) 14 =
     Some (Bytes 4) \<and>
   callbacks (since (backlog zeroed)
      (input_interrupt_cb (completes\<lparr>buffer_copy_ok := False\<rparr>) 5 (backlog zeroed))) =
     [UserCallback 7 0 0x81 None None]"
proof -
  have a: "alloc_fails (completes\<lparr>buffer_copy_ok := False\<rparr>)"
    by (simp add: alloc_fails_def completes_def)
  have b: "t_user_data (transfers (backlog zeroed) 5) < brk (backlog zeroed)"
    by (simp add: backlog_proj)
  have c: "\<forall>a\<in>set (scheduled_interupts (backlog zeroed)). a < brk (backlog zeroed)"
    by (simp add: backlog_proj)
  show ?thesis
    using oom_tears_down_one_handle[OF a b c] a
    by (simp add: Let_def backlog_proj backlog_live zeroed_def)
qed

text \<open>
  \<^bold>\<open>C3\<close>. Whatever completes during a tick, the drain that follows calls the user
  callback once for each queued delivery record, first queued first, with the record's
  handle, endpoint, buffer and user data; it releases every such record and its buffer;
  and it leaves the queue empty.
\<close>

theorem drain_is_fifo_and_complete:
  "let s1 = libusb_handle_events completions s;
       s' = sccd_usb_helper_mainloop completions s
   in trace s' = trace s1 @ map (callback_of s1) (scheduled_interupts s1) \<and>
      scheduled_interupts s' = [] \<and>
      dom (live s') \<inter> set (scheduled_interupts s1) = {} \<and>
      dom (live s') \<inter>
        {b. \<exists>a\<in>set (scheduled_interupts s1). i_buffer (requests s1 a) = Some b} = {}"
  by (auto simp: sccd_usb_helper_mainloop_def Let_def list_clear_def fold_deliver_trace
        fold_deliver_live split: if_splits)

section \<open>Claims about opening a device\<close>

text \<open>What the scan of the device list returns: \<^verbatim>\<open>NULL\<close> when the handle cannot be
  allocated or no device matches; the new handle, initialised, when the matching device
  opens; and the new handle, already freed, when it does not open.\<close>

lemma open_scan_no_memory:
  "\<not> handle_ok env \<Longrightarrow> fst (open_scan env sb sd devs i s) = None"
  by (induction devs arbitrary: i) (auto simp: open_by_syspath_end_def malloc_def)

lemma open_scan_not_found:
  "(sb, sd) \<notin> set devs \<Longrightarrow> fst (open_scan env sb sd devs i s) = None"
proof (induction devs arbitrary: i)
  case Nil
  show ?case by (simp add: open_by_syspath_end_def)
next
  case (Cons d devs)
  obtain bus dev where d: "d = (bus, dev)" by (cases d)
  from Cons.prems d have "\<not> (bus = sb \<and> dev = sd)" and "(sb, sd) \<notin> set devs" by auto
  then show ?case using Cons.IH d by auto
qed

lemma open_scan_denied:
  "handle_ok env \<Longrightarrow> (sb, sd) \<in> set devs \<Longrightarrow> \<forall>j. fst (libusb_open env j) \<noteq> 0 \<Longrightarrow>
   fst (open_scan env sb sd devs i s) = Some (brk s) \<and>
   live (snd (open_scan env sb sd devs i s)) (brk s) = None"
proof (induction devs arbitrary: i)
  case Nil
  then show ?case by simp
next
  case (Cons d devs)
  obtain bus dev where d: "d = (bus, dev)" by (cases d)
  show ?case
  proof (cases "bus = sb \<and> dev = sd")
    case True
    obtain err usb where o: "libusb_open env i = (err, usb)" by (cases "libusb_open env i")
    with Cons.prems(3) have "err \<noteq> 0" by (metis fst_conv)
    then show ?thesis
      using True d o Cons.prems(1)
      by (simp add: open_by_syspath_end_def malloc_def emit_def free_def Let_def)
  next
    case False
    with Cons.prems(2) d have "(sb, sd) \<in> set devs" by auto
    then show ?thesis
      using False d Cons.IH[OF Cons.prems(1) _ Cons.prems(3)] by auto
  qed
qed

lemma open_scan_opened:
  "handle_ok env \<Longrightarrow> (sb, sd) \<in> set devs \<Longrightarrow> \<forall>j. fst (libusb_open env j) = 0 \<Longrightarrow>
   fst (open_scan env sb sd devs i s) = Some (brk s) \<and>
   live (snd (open_scan env sb sd devs i s)) (brk s) = Some HandleBlock \<and>
   sys (handles (snd (open_scan env sb sd devs i s)) (brk s)) = USB"
proof (induction devs arbitrary: i)
  case Nil
  then show ?case by simp
next
  case (Cons d devs)
  obtain bus dev where d: "d = (bus, dev)" by (cases d)
  show ?case
  proof (cases "bus = sb \<and> dev = sd")
    case True
    obtain err usb where o: "libusb_open env i = (err, usb)" by (cases "libusb_open env i")
    with Cons.prems(3) have "err = 0" by (metis fst_conv)
    then show ?thesis
      using True d o Cons.prems(1)
      by (simp add: open_by_syspath_end_def malloc_def emit_def free_def Let_def)
  next
    case False
    with Cons.prems(2) d have "(sb, sd) \<in> set devs" by auto
    then show ?thesis
      using False d Cons.IH[OF Cons.prems(1) _ Cons.prems(3)] by auto
  qed
qed

lemma open_hidapi:
  "strstr syspath ''/hidapi/'' = Some syspath \<Longrightarrow>
   sccd_usb_dev_open_by_syspath env syspath s = Returns (r, s') \<Longrightarrow>
   (r = None \<and> dom (live s') \<subseteq> dom (live s)) \<or>
   (r = Some (brk s) \<and> live s' (brk s) = Some HandleBlock \<and>
    sys (handles s' (brk s)) = HIDAPI \<and> usb_hid (handles s' (brk s)) \<noteq> None)"
  by (auto simp: sccd_usb_dev_open_by_syspath_def malloc_def emit_def free_def Let_def
        split: if_splits option.splits prod.splits)

text \<open>
  \<^bold>\<open>C4\<close> fails on the code. At the path \<^verbatim>\<open>/win32/usb/1/2\<close>, with the device
  enumerated, the handle allocated and \<^verbatim>\<open>libusb_open\<close> refusing, the function frees the
  handle, jumps to its end label and returns the pointer it has just freed: the result is
  not \<^verbatim>\<open>NULL\<close> and the block it points to is no longer allocated. (Every other failure
  path returns \<^verbatim>\<open>NULL\<close>, as the lemmas above and the code of the HIDAPI branch show.)
\<close>

theorem open_returns_freed_handle:
  "(case sccd_usb_dev_open_by_syspath open_denied ''/win32/usb/1/2'' (world0 zeroed) of
      Crashed \<Rightarrow> False
    | Returns (hndl, s') \<Rightarrow> hndl = Some 3 \<and> live s' 3 = None \<and>
        trace s' = [LibusbOpen 1, FreeDeviceList])"
  by (simp add: sccd_usb_dev_open_by_syspath_def get_usb_address_def open_denied_def Let_def
        world0_proj malloc_def emit_def free_def open_by_syspath_end_def)

section \<open>Claims about the feature-report round trip\<close>

text \<open>
  \<^bold>\<open>C5\<close>, as amended. With a negative length argument \<^verbatim>\<open>sccd_usb_dev_hid_request\<close>
  allocates nothing and frees nothing (the table of allocated blocks and the allocator
  are as before) and writes to no buffer but the caller's. On the event-driven backend it
  sends the ``set report'' transfer from the caller's buffer and, if that succeeded, the
  ``get report'' transfer into the caller's buffer; it returns the caller's buffer, now
  holding the answer, exactly when both succeeded, and \<^verbatim>\<open>NULL\<close> with the buffer unchanged
  otherwise. On the blocking-read backend it does nothing and returns \<^verbatim>\<open>NULL\<close> when the
  length is above \<^verbatim>\<open>BUFFER_MAX\<close> or the index is not the recorded one; otherwise it sends
  the caller's bytes behind a zero report id and, if that succeeded, asks for the answer
  and copies it, without the report id, into the caller's buffer. On any other subsystem
  it does nothing and returns \<^verbatim>\<open>NULL\<close>. The length of every transfer is the 16-bit
  length the code derives from the argument: the absolute value of the argument when the
  argument is above -65536, and its low 16 bits otherwise, so the claim's ``size equal to
  the absolute value'' fails beyond that (the counterexample below).
\<close>

theorem negative_length_reuses_callers_buffer:
  assumes neg: "sint len32 < 0"
  shows "case sccd_usb_dev_hid_request env hndl index data len32 s of (r, s') \<Rightarrow>
     let h = handles s hndl;
         len = request_length len32;
         sent = (0 \<le> set_report_err env);
         answered = (0 \<le> set_report_err env \<and> 0 \<le> get_report_err env);
         refused = (BUFFER_MAX < unat len \<or> idx h \<noteq> uint index);
         got = take (unat len + 1) (get_report_data env)
     in live s' = live s \<and> brk s' = brk s \<and>
        (\<forall>a. a \<noteq> data \<longrightarrow> bytes s' a = bytes s a) \<and>
        (sys h = USB \<longrightarrow>
           since s s' =
             ControlTransfer (usb_hid h) 0x21 0x09 0x0300 index data len 500 #
             (if sent then [ControlTransfer (usb_hid h) 0xa1 0x01 0x0300 index data len 500]
              else []) \<and>
           r = (if answered then Some data else None) \<and>
           bytes s' = (if answered
                       then bytes (store data (take (unat len) (get_report_data env)) s)
                       else bytes s)) \<and>
        (sys h = HIDAPI \<longrightarrow>
           since s s' =
             (if refused then []
              else HidSendFeatureReport (usb_hid h) (0 # load s data (unat len)) #
                   (if sent then [HidGetFeatureReport (usb_hid h) (unat len + 1)] else [])) \<and>
           r = (if \<not> refused \<and> answered then Some data else None) \<and>
           bytes s' = (if \<not> refused \<and> answered
                       then bytes (store data
                              (tl (got @ drop (length got) (0 # load s data (unat len)))) s)
                       else bytes s)) \<and>
        (sys h \<noteq> USB \<and> sys h \<noteq> HIDAPI \<longrightarrow>
           since s s' = [] \<and> r = None \<and> bytes s' = bytes s) \<and>
        (- 65536 < sint len32 \<longrightarrow> int (unat len) = - sint len32)"
proof -
  have "- 65536 < sint len32 \<longrightarrow> int (unat (request_length len32)) = - sint len32"
    using neg request_length_abs[of len32] by auto
  then show ?thesis
    using neg
    by (cases "sys (handles s hndl)")
       (auto simp: sccd_usb_dev_hid_request_def Let_def hid_request_fail_def since_def
          emit_def store_def load_def LIBUSB_ENDPOINT_DIR_MASK_def LIBUSB_ENDPOINT_IN_def
          LIBUSB_ENDPOINT_OUT_def cong: if_cong)
qed

text \<open>C5 at two sample calls with length -8 and a device that answers: one on the
  event-driven handle, one on the blocking-read handle with the recorded index.\<close>

theorem negative_length_reuses_callers_buffer_witness:
  "sint (- 8 :: i32) < 0 \<and>
   sys (handles (world0 zeroed) 0) = USB \<and>
   fst (sccd_usb_dev_hid_request answers 0 0 2 (- 8) (world0 zeroed)) = Some 2 \<and>
   live (snd (sccd_usb_dev_hid_request answers 0 0 2 (- 8) (world0 zeroed))) = live (world0 zeroed) \<and>
   brk (snd (sccd_usb_dev_hid_request answers 0 0 2 (- 8) (world0 zeroed))) = 3 \<and>
   since (world0 zeroed) (snd (sccd_usb_dev_hid_request answers 0 0 2 (- 8) (world0 zeroed))) =
     [ControlTransfer (Some 100) 0x21 0x09 0x0300 0 2 8 500,
      ControlTransfer (Some 100) 0xa1 0x01 0x0300 0 2 8 500] \<and>
   load (snd (sccd_usb_dev_hid_request answers 0 0 2 (- 8) (world0 zeroed))) 2 8 =
     [0, 10, 20, 30, 40, 50, 60, 70] \<and>
   sys (handles (world0 zeroed) 1) = HIDAPI \<and>
   fst (sccd_usb_dev_hid_request answers 1 5 2 (- 8) (world0 zeroed)) = Some 2 \<and>
   since (world0 zeroed) (snd (sccd_usb_dev_hid_request answers 1 5 2 (- 8) (world0 zeroed))) =
     [HidSendFeatureReport (Some 101) [0, 0, 0, 0, 0, 0, 0, 0, 0],
      HidGetFeatureReport (Some 101) 9] \<and>
   load (snd (sccd_usb_dev_hid_request answers 1 5 2 (- 8) (world0 zeroed))) 2 8 =
     [10, 20, 30, 40, 50, 60, 70, 80] \<and>
   unat (request_length (- 8)) = 8"
proof -
  have n: "sint (- 8 :: i32) < 0" by simp
  have l: "request_length (- 8) = 8" by (simp add: request_length_def)
  show ?thesis
    using negative_length_reuses_callers_buffer[OF n, where env = answers and hndl = 0
            and index = 0 and data = 2 and s = "world0 zeroed"]
          negative_length_reuses_callers_buffer[OF n, where env = answers and hndl = 1
            and index = 5 and data = 2 and s = "world0 zeroed"] n
    by (simp add: split_def Let_def l world0_proj answers_def BUFFER_MAX_def load_def store_def
          upt_rec)
qed

text \<open>C5 as stated fails: for the length -65544 the set and get transfers use 8 bytes of
  the caller's buffer, not 65544.\<close>

theorem negative_length_low_bits_counterexample:
  "sint (- 65544 :: i32) = - 65544 \<and>
   unat (request_length (- 65544)) = 8 \<and>
   trace (snd (sccd_usb_dev_hid_request answers 0 0 2 (- 65544) (world0 zeroed))) =
     [ControlTransfer (Some 100) 0x21 0x09 0x0300 0 2 8 500,
      ControlTransfer (Some 100) 0xa1 0x01 0x0300 0 2 8 500]"
  by (simp add: sccd_usb_dev_hid_request_def Let_def world0_proj request_length_def answers_def
        emit_def store_def LIBUSB_ENDPOINT_DIR_MASK_def LIBUSB_ENDPOINT_IN_def
        LIBUSB_ENDPOINT_OUT_def)

text \<open>On the event-driven backend a call with a non-negative length returns the buffer it
  allocated, or \<^verbatim>\<open>NULL\<close> with nothing new left allocated. On the blocking-read backend
  the two early returns skip the release.\<close>

lemma hid_request_usb_fresh_or_freed:
  assumes "sys (handles s hndl) = USB" and "0 \<le> sint len32"
  shows "case sccd_usb_dev_hid_request env hndl index data len32 s of
           (None, s') \<Rightarrow> dom (live s') \<subseteq> dom (live s)
         | (Some a, s') \<Rightarrow>
             a = brk s \<and> live s' = (live s)(a \<mapsto> Bytes (unat (request_length len32)))"
  using assms
  by (auto simp: sccd_usb_dev_hid_request_def Let_def malloc_def hid_request_fail_def
        emit_proj store_proj live_free free_proj split: if_splits)

lemma hid_request_hidapi_leaks:
  assumes "sys (handles s hndl) = HIDAPI" "0 \<le> sint len32" "out_buffer_ok env"
      and "idx (handles s hndl) \<noteq> uint index \<or> BUFFER_MAX < unat (request_length len32)"
  shows "fst (sccd_usb_dev_hid_request env hndl index data len32 s) = None \<and>
         live (snd (sccd_usb_dev_hid_request env hndl index data len32 s)) (brk s) =
           Some (Bytes (unat (request_length len32)))"
  using assms
  by (auto simp: sccd_usb_dev_hid_request_def Let_def malloc_def)

text \<open>
  \<^bold>\<open>C6\<close> fails on the code. A request for eight fresh bytes at index 3, on a
  blocking-read handle that was opened for index 5, returns \<^verbatim>\<open>NULL\<close> while the output
  buffer it has just allocated (address 3, not allocated before the call) is still
  allocated.
\<close>

theorem hid_request_leaks_on_index_mismatch:
  "fst (sccd_usb_dev_hid_request answers 1 3 2 8 (world0 zeroed)) = None \<and>
   live (world0 zeroed) 3 = None \<and>
   live (snd (sccd_usb_dev_hid_request answers 1 3 2 8 (world0 zeroed))) 3 = Some (Bytes 8)"
  by (simp add: sccd_usb_dev_hid_request_def Let_def world0_proj request_length_def answers_def
        malloc_def BUFFER_MAX_def)

text \<open>
  \<^bold>\<open>C7\<close>, as amended. On the blocking-read backend the request returns \<^verbatim>\<open>NULL\<close>
  without any call to the device when the index differs from the one recorded at open
  time, and also when the 16-bit length the code works with exceeds \<^verbatim>\<open>BUFFER_MAX\<close> (256).
  That length is the absolute value of the length argument whenever the absolute value is
  below 65536; beyond that it is the argument's low 16 bits, so the claim as stated fails
  (the counterexample below).
\<close>

theorem hidapi_request_refused_without_io:
  assumes "sys (handles s hndl) = HIDAPI"
      and "idx (handles s hndl) \<noteq> uint index \<or> BUFFER_MAX < unat (request_length len32)"
  shows "fst (sccd_usb_dev_hid_request env hndl index data len32 s) = None \<and>
         trace (snd (sccd_usb_dev_hid_request env hndl index data len32 s)) = trace s \<and>
         (\<bar>sint len32\<bar> < 65536 \<longrightarrow> int (unat (request_length len32)) = \<bar>sint len32\<bar>)"
  using assms request_length_abs[of len32]
  by (auto simp: sccd_usb_dev_hid_request_def Let_def malloc_def split: if_splits)

text \<open>C7 at the spec's scenario (index 3 against a handle opened for index 5, length -8)
  and at a length of 300 with the right index.\<close>

theorem hidapi_request_refused_without_io_witness:
  "sys (handles (world0 zeroed) 1) = HIDAPI \<and>
   idx (handles (world0 zeroed) 1) = 5 \<and> uint (3 :: u16) = 3 \<and>
   fst (sccd_usb_dev_hid_request answers 1 3 2 (- 8) (world0 zeroed)) = None \<and>
   trace (snd (sccd_usb_dev_hid_request answers 1 3 2 (- 8) (world0 zeroed))) = [] \<and>
   unat (request_length 300) = 300 \<and>
   fst (sccd_usb_dev_hid_request answers 1 5 2 300 (world0 zeroed)) = None \<and>
   trace (snd (sccd_usb_dev_hid_request answers 1 5 2 300 (world0 zeroed))) = []"
proof -
  have h: "sys (handles (world0 zeroed) 1) = HIDAPI"
    by (simp add: world0_proj)
  have a: "idx (handles (world0 zeroed) 1) \<noteq> uint (3 :: u16) \<or>
           BUFFER_MAX < unat (request_length (- 8))"
    by (simp add: world0_proj)
  have b: "idx (handles (world0 zeroed) 1) \<noteq> uint (5 :: u16) \<or>
           BUFFER_MAX < unat (request_length 300)"
    by (simp add: request_length_def BUFFER_MAX_def)
  show ?thesis
    using hidapi_request_refused_without_io[OF h a, where env = answers and data = 2]
          hidapi_request_refused_without_io[OF h b, where env = answers and data = 2] h
    by (simp add: world0_proj request_length_def)
qed

text \<open>C7 as stated fails: a requested length of 65544 exceeds 256, but its low 16 bits
  are 8, and with the right index the request goes out to the device and returns a
  buffer.\<close>

theorem hid_request_long_length_counterexample:
  "fst (sccd_usb_dev_hid_request answers 1 5 2 65544 (world0 zeroed)) = Some 3 \<and>
   trace (snd (sccd_usb_dev_hid_request answers 1 5 2 65544 (world0 zeroed))) =
     [HidSendFeatureReport (Some 101) [0, 0, 0, 0, 0, 0, 0, 0, 0], HidGetFeatureReport (Some 101) 9]"
  by (simp add: sccd_usb_dev_hid_request_def Let_def world0_proj request_length_def answers_def
        malloc_def BUFFER_MAX_def emit_def store_def load_def upt_rec)

section \<open>Claims about read loops\<close>

text \<open>
  \<^bold>\<open>C8\<close>. On a handle of the event-driven backend \<^verbatim>\<open>sccd_usb_dev_interupt_read_loop\<close>
  returns true exactly when its three allocations and the submission succeed. It never
  calls a user callback and never touches the queue. When it returns true it has made one
  call, the submission of the new transfer, whose endpoint is the caller's with the input
  bit set, whose buffer and request record are the new ones, all three still allocated.
  When it returns false nothing it allocated is left allocated, and no submission has
  succeeded.
\<close>

theorem read_loop_starts_or_releases:
  assumes usb: "sys (handles s hndl) = USB"
  shows "case sccd_usb_dev_interupt_read_loop env hndl endpoint len cb userdata s of
           (started, s') \<Rightarrow>
     started = (buffer_ok env \<and> idata_ok env \<and> transfer_ok env \<and> submit_err env = 0) \<and>
     callbacks (since s s') = [] \<and>
     scheduled_interupts s' = scheduled_interupts s \<and>
     (started \<longrightarrow>
        since s s' = [SubmitTransfer (brk s + 2) 0] \<and>
        transfers s' (brk s + 2) = (transfers s (brk s + 2))
          \<lparr>t_dev_handle := usb_hid (handles s hndl), t_endpoint := endpoint OR 0x80,
           t_buffer := brk s, t_length := len, t_user_data := brk s + 1, t_timeout := 0\<rparr> \<and>
        requests s' (brk s + 1) = (requests s (brk s + 1))
          \<lparr>i_cb := cb, i_hndl := hndl, i_buffer := Some (brk s), i_userdata := userdata\<rparr> \<and>
        live s' = (live s)(brk s \<mapsto> Bytes (nat len), brk s + 1 \<mapsto> RequestBlock,
                           brk s + 2 \<mapsto> TransferBlock)) \<and>
     (\<not> started \<longrightarrow>
        dom (live s') \<subseteq> dom (live s) \<and>
        (since s s' = [] \<or>
         since s s' = [SubmitTransfer (brk s + 2) (submit_err env)] \<and> submit_err env \<noteq> 0))"
  using usb
  by (cases "buffer_ok env"; cases "idata_ok env"; cases "transfer_ok env";
      cases "submit_err env = 0")
     (auto simp: sccd_usb_dev_interupt_read_loop_def Let_def malloc_def libusb_alloc_transfer_def
        libusb_fill_interrupt_transfer_def emit_def read_loop_fail_def libusb_free_transfer_def
        free_def since_def callbacks_def force_in)

text \<open>C8 at a sample call with endpoint 0x01, once with everything succeeding and once
  with the submission failing.\<close>

theorem read_loop_starts_or_releases_witness:
  "sys (handles (world0 zeroed) 0) = USB \<and>
   fst (sccd_usb_dev_interupt_read_loop all_ok 0 0x01 64 7 None (world0 zeroed)) \<and>
   since (world0 zeroed) (snd (sccd_usb_dev_interupt_read_loop all_ok 0 0x01 64 7 None (world0 zeroed)))
     = [SubmitTransfer 5 0] \<and>
   t_endpoint (transfers (snd (sccd_usb_dev_interupt_read_loop all_ok 0 0x01 64 7 None (world0 zeroed))) 5)
     = 0x81 \<and>
   \<not> fst (sccd_usb_dev_interupt_read_loop (all_ok\<lparr>submit_err := - 1\<rparr>) 0 0x01 64 7 None
            (world0 zeroed)) \<and>
   dom (live (snd (sccd_usb_dev_interupt_read_loop (all_ok\<lparr>submit_err := - 1\<rparr>) 0 0x01 64 7 None
            (world0 zeroed)))) \<subseteq> dom (live (world0 zeroed)) \<and>
   callbacks (since (world0 zeroed)
      (snd (sccd_usb_dev_interupt_read_loop (all_ok\<lparr>submit_err := - 1\<rparr>) 0 0x01 64 7 None
            (world0 zeroed)))) = []"
proof -
  have u: "sys (handles (world0 zeroed) 0) = USB"
    by (simp add: world0_proj)
  show ?thesis
    using read_loop_starts_or_releases[OF u, where env = all_ok and endpoint = "0x01"
            and len = 64 and cb = 7 and userdata = None]
          read_loop_starts_or_releases[OF u, where env = "all_ok\<lparr>submit_err := - 1\<rparr>"
            and endpoint = "0x01" and len = 64 and cb = 7 and userdata = None] u
    by (simp add: split_def all_ok_def world0_proj(1,3,4,5,6,7,8))
qed

text \<open>The tick of a blocking-read loop reads with the length, and calls back with the
  endpoint, that the request record's memory held before the loop was started, whatever
  endpoint and length the loop was started with.\<close>

lemma hidapi_tick_uses_what_memory_held:
  "trace (sccd_hidapi_dev_interupt_cb [(8, [1, 2, 3, 4, 5, 6, 7, 8])] 3
            (snd (sccd_usb_dev_interupt_read_loop all_ok 1 endpoint len 7 None (world0 junk)))) =
     [Schedule 1 3,
      HidReadTimeout (Some 101) (Some 4) (i_length junk) 0,
      UserCallback 7 1 (i_endpoint junk) (Some 4) None,
      HidReadTimeout (Some 101) (Some 4) (i_length junk) 0,
      Schedule 1 3]"
  by (simp add: sccd_usb_dev_interupt_read_loop_def sccd_hidapi_dev_interupt_read_loop_def
        sccd_hidapi_dev_interupt_cb_def world0_def all_ok_def malloc_def emit_def
        store_def Let_def)

text \<open>
  \<^bold>\<open>C9\<close> fails on the code. A blocking-read loop is started with endpoint 0x83 and
  length 64 in memory that held the endpoint byte 0xEE and the length 8 at the place of
  the new request record; eight bytes are waiting at the next tick. The tick reads with
  length 8 and calls back with endpoint 0xEE: \<^verbatim>\<open>sccd_hidapi_dev_interupt_read_loop\<close>
  stores neither argument in the record.
\<close>

theorem hidapi_tick_ignores_registration:
  "trace (sccd_hidapi_dev_interupt_cb [(8, [1, 2, 3, 4, 5, 6, 7, 8])] 3
            (snd (sccd_usb_dev_interupt_read_loop all_ok 1 0x83 64 7 None (world0 stale)))) =
     [Schedule 1 3,
      HidReadTimeout (Some 101) (Some 4) 8 0,
      UserCallback 7 1 0xEE (Some 4) None,
      HidReadTimeout (Some 101) (Some 4) 8 0,
      Schedule 1 3]"
  using hidapi_tick_uses_what_memory_held[of "0x83" 64 stale] by (simp add: stale_def)

text \<open>What holds of C10: a delivery record that carries data has the transfer's endpoint
  with the direction bit cleared, which differs from the raw endpoint the out-of-memory
  callback passes whenever the input bit is set.\<close>

lemma delivery_paths_disagree:
  assumes "\<not> alloc_fails env" and "t_endpoint (transfers s t) AND 0x80 = 0x80"
  shows "i_endpoint (requests (input_interrupt_cb env t s) (brk s)) \<noteq> t_endpoint (transfers s t)"
proof -
  have ok: "list_allocate_ok env" "scheduled_ok env" "buffer_copy_ok env"
       "resubmit_err env \<noteq> 0 \<Longrightarrow> scheduled2_ok env"
    using assms(1) by (auto simp: alloc_fails_def)
  have "i_endpoint (requests (input_interrupt_cb env t s) (brk s)) =
          t_endpoint (transfers s t) AND NOT LIBUSB_ENDPOINT_DIR_MASK"
    using ok
    by (cases "resubmit_err env = 0")
       (simp_all add: input_interrupt_cb_def Let_def malloc_def memcpy_def list_add_def emit_def
          error_proj)
  then show ?thesis
    using mask_differs[OF assms(2)] by simp
qed

text \<open>The null-buffer record queued after a failed resubmission keeps the endpoint byte
  of the request record, which \<^verbatim>\<open>sccd_usb_dev_interupt_read_loop\<close> never sets.\<close>

lemma null_record_keeps_request_endpoint:
  "callbacks (trace (sccd_usb_helper_mainloop [(5, [1, 2, 3, 4], completes\<lparr>resubmit_err := - 4\<rparr>)]
      (armed junk))) =
     [UserCallback 7 0 0x01 (Some 7) None, UserCallback 7 0 (i_endpoint junk) None None]"
proof -
  let ?env = "completes\<lparr>resubmit_err := - 4\<rparr>"
  let ?s1 = "input_interrupt_cb ?env 5 (arrived junk)"
  have a: "\<not> alloc_fails ?env" and b: "resubmit_err ?env \<noteq> 0"
    by (simp_all add: alloc_fails_def completes_def)
  have c: "t_user_data (transfers (arrived junk) 5) < brk (arrived junk)"
    by (simp add: arrived_proj)
  note facts = completion_ends_loop[OF a b c]
  have q: "scheduled_interupts ?s1 = [6, 8]"
    using facts(1) by (simp add: arrived_proj)
  have r6: "requests ?s1 6 = junk\<lparr>i_cb := 7, i_hndl := 0, i_endpoint := 0x01, i_buffer := Some 7,
                                   i_userdata := None\<rparr>"
    using facts(2) by (simp add: arrived_proj LIBUSB_ENDPOINT_DIR_MASK_def)
  have r8: "requests ?s1 8 = junk\<lparr>i_cb := 7, i_hndl := 0, i_buffer := None, i_userdata := None\<rparr>"
    using facts(4) by (simp add: arrived_proj)
  have t: "trace ?s1 = [SubmitTransfer 5 0, ListAdd 6, SubmitTransfer 5 (- 4), ListAdd 8]"
    using facts(5) by (simp add: arrived_proj completes_def)
  have "sccd_usb_helper_mainloop [(5, [1, 2, 3, 4], ?env)] (armed junk) =
          list_clear (fold deliver (scheduled_interupts ?s1) ?s1)"
    by (simp add: sccd_usb_helper_mainloop_def Let_def arrived_def[symmetric] q)
  then show ?thesis
    by (simp add: list_clear_def deliver_proj callback_of_def q r6 r8 t callbacks_def)
qed

text \<open>
  \<^bold>\<open>C10\<close> fails on the code. A loop is started on endpoint 0x81 in memory that held
  the endpoint byte 0xEE at the place of the new request record; four bytes arrive and
  the resubmission fails. The drain delivers the data with endpoint 0x01 and then the
  null buffer with endpoint 0xEE, which is not the endpoint number and has the direction
  bit set.
\<close>

theorem drained_null_record_has_stale_endpoint:
  "callbacks (trace (sccd_usb_helper_mainloop [(5, [1, 2, 3, 4], completes\<lparr>resubmit_err := - 4\<rparr>)]
      (armed stale))) =
     [UserCallback 7 0 0x01 (Some 7) None, UserCallback 7 0 0xEE None None]"
  by (simp add: null_record_keeps_request_endpoint stale_def)

end
